theory Spec2Isabelle
  imports Complex_Main "HOL-Library.Sublist"
begin

section \<open>Values read from the YAML manifests\<close>

text \<open>
  The data that \<^verbatim>\<open>yaml.safe_load\<close> hands to \<^verbatim>\<open>dbt/config/project.py\<close>: scalars, lists
  and dicts with string keys. A dict is an association list whose keys are distinct, in
  insertion order. \<open>PFloat r\<close> is a finite float, given by the number it denotes.
  \<open>PAlias n\<close> is a reference back to the container \<open>n\<close> levels up the path from the
  root: the one way (a YAML anchor with an alias inside it) in which a loaded value
  contains itself.
\<close>

datatype pyval =
    PNone
  | PBool bool
  | PInt int
  | PFloat real
  | PStr string
  | PList "pyval list"
  | PDict "(string \<times> pyval) list"
  | PAlias nat

text \<open>Python's numeric tower under \<^verbatim>\<open>==\<close>: \<^verbatim>\<open>True == 1 == 1.0\<close>.\<close>

fun num_of :: "pyval \<Rightarrow> real option" where
  "num_of (PBool b) = Some (if b then 1 else 0)"
| "num_of (PInt i) = Some (of_int i)"
| "num_of (PFloat r) = Some r"
| "num_of _ = None"

lemma map_of_size [termination_simp]:
  "map_of ys k = Some w \<Longrightarrow> size w < Suc (size_list (size_prod (\<lambda>_. 0) size) ys)"
  by (induction ys) (auto split: if_splits)

text \<open>Python's \<^verbatim>\<open>==\<close> on loaded values: dicts compare by content, whatever the order
  of their keys; lists elementwise; numbers by value.\<close>

fun py_eq :: "pyval \<Rightarrow> pyval \<Rightarrow> bool" where
  "py_eq (PList xs) (PList ys) = list_all2 py_eq xs ys"
| "py_eq (PDict xs) (PDict ys) =
     (length xs = length ys \<and>
      list_all (\<lambda>(k, v). case map_of ys k of None \<Rightarrow> False | Some w \<Rightarrow> py_eq v w) xs)"
| "py_eq (PStr s) (PStr t) = (s = t)"
| "py_eq PNone PNone = True"
| "py_eq a b = (case (num_of a, num_of b) of (Some x, Some y) \<Rightarrow> x = y | _ \<Rightarrow> False)"

text \<open>\<^verbatim>\<open>d.get(k)\<close> and \<^verbatim>\<open>d.get(k, default)\<close>.\<close>

definition dict_get :: "(string \<times> pyval) list \<Rightarrow> string \<Rightarrow> pyval" where
  "dict_get d k = (case map_of d k of None \<Rightarrow> PNone | Some v \<Rightarrow> v)"

definition dict_get_default :: "(string \<times> pyval) list \<Rightarrow> string \<Rightarrow> pyval \<Rightarrow> pyval" where
  "dict_get_default d k dflt = (case map_of d k of None \<Rightarrow> dflt | Some v \<Rightarrow> v)"

section \<open>Exceptions\<close>

text \<open>
  A formatted message is the list of its pieces: the literal text of the template and,
  for each replacement field, the value that Python formats there.
\<close>

datatype frag = Lit string | Fld pyval

text \<open>
  The exceptions the module raises or lets through. \<open>DbtProjectError\<close> has the message,
  the \<^verbatim>\<open>project=\<close> keyword and the \<^verbatim>\<open>path=\<close> keyword of the source's calls.
\<close>

datatype exc =
    DbtProjectError "frag list" "pyval option" "string option"
  | ValidationError "frag list"
  | RecursionException
  | RuntimeException "frag list"
  | KeyError string
  | TypeError

section \<open>Loading the raw project\<close>

text \<open>
  The file system the module reads: \<open>normpath\<close> is \<^verbatim>\<open>os.path.normpath\<close>, and \<open>files p\<close>
  is the parsed YAML of the file at \<open>p\<close>, or \<open>None\<close> where \<^verbatim>\<open>path_exists\<close> is false.
\<close>

record env =
  normpath :: "string \<Rightarrow> string"
  files :: "string \<Rightarrow> pyval option"

definition path_join :: "string \<Rightarrow> string \<Rightarrow> string" where
  "path_join base name = base @ ''/'' @ name"

definition raw_project_from :: "env \<Rightarrow> string \<Rightarrow> exc + (string \<times> pyval) list" where
  "raw_project_from e project_root =
     (let base = normpath e project_root;
          project_yaml_filepath = path_join base ''dbt_project.yml''
      in case files e project_yaml_filepath of
           None \<Rightarrow> Inl (DbtProjectError
                      [Lit ''no dbt_project.yml found at expected path '',
                       Fld (PStr project_yaml_filepath)] None None)
         | Some (PDict d) \<Rightarrow> Inr d
         | Some _ \<Rightarrow> Inl (DbtProjectError
                      [Lit ''dbt_project.yml does not parse to a dictionary''] None None))"

record PartialProject =
  pp_config_version :: pyval
  pp_profile_name :: pyval
  pp_project_name :: pyval
  pp_project_root :: string
  pp_project_dict :: "(string \<times> pyval) list"
  pp_verify_version :: bool

definition partial_load :: "env \<Rightarrow> string \<Rightarrow> bool \<Rightarrow> exc + PartialProject" where
  "partial_load e root0 verify =
     (let base = normpath e root0 in
      case raw_project_from e base of
        Inl err \<Rightarrow> Inl err
      | Inr d \<Rightarrow>
          (let name = dict_get d ''name'';
               profile = dict_get d ''profile'';
               cv = dict_get_default d ''config-version'' (PInt 1)
           in if \<not> py_eq cv (PInt 2)
              then Inl (DbtProjectError
                     [Lit ''Invalid config version: '', Fld cv, Lit '', expected 2'']
                     None (Some (path_join base ''dbt_project.yml'')))
              else Inr \<lparr>pp_config_version = cv, pp_profile_name = profile, pp_project_name = name,
                        pp_project_root = base, pp_project_dict = d, pp_verify_version = verify\<rparr>))"

text \<open>A project directory whose manifest says \<^verbatim>\<open>config-version: 2.0\<close>.\<close>

definition float_env :: env where
  "float_env = \<lparr>normpath = (\<lambda>p. p),
     files = (\<lambda>p. if p = ''proj/dbt_project.yml''
                   then Some (PDict [(''name'', PStr ''jaffle''), (''config-version'', PFloat 2)])
                   else None)\<rparr>"

text \<open>A manifest with \<^verbatim>\<open>config-version: 2\<close>, and one without the key.\<close>

definition v2_env :: env where
  "v2_env = \<lparr>normpath = (\<lambda>p. p),
     files = (\<lambda>p. if p = ''proj/dbt_project.yml''
                   then Some (PDict [(''name'', PStr ''jaffle''), (''config-version'', PInt 2),
                                     (''profile'', PStr ''dev'')])
                   else None)\<rparr>"

definition v1_env :: env where
  "v1_env = \<lparr>normpath = (\<lambda>p. p),
     files = (\<lambda>p. if p = ''proj/dbt_project.yml''
                   then Some (PDict [(''name'', PStr ''jaffle'')])
                   else None)\<rparr>"

section \<open>Scoped variables\<close>

record IsFQNResource =
  fqn :: "string list"
  resource_type :: string
  package_name :: string

text \<open>
  Modelled from the spec: \<^verbatim>\<open>MultiDict\<close> of \<^verbatim>\<open>dbt.utils\<close> is not in the sources. It is
  the overlay mapping of section 4.3: a list of source mappings, the one added last
  taking precedence. A lookup asks each source \<^verbatim>\<open>name in entry\<close> and then
  \<^verbatim>\<open>entry[name]\<close>, as Python does for whatever value the source is.
\<close>

datatype MultiDict = MultiDict (md_sources: "pyval list")

definition md_add :: "MultiDict \<Rightarrow> pyval \<Rightarrow> MultiDict" where
  "md_add m s = MultiDict (md_sources m @ [s])"

fun md_lookup_in :: "pyval list \<Rightarrow> string \<Rightarrow> exc + pyval" where
  "md_lookup_in [] name = Inl (KeyError name)"
| "md_lookup_in (PDict kvs # rest) name =
     (case map_of kvs name of Some v \<Rightarrow> Inr v | None \<Rightarrow> md_lookup_in rest name)"
| "md_lookup_in (PStr s # rest) name =
     (if sublist name s then Inl TypeError else md_lookup_in rest name)"
| "md_lookup_in (PList xs # rest) name =
     (if list_ex (\<lambda>x. py_eq x (PStr name)) xs then Inl TypeError
      else md_lookup_in rest name)"
| "md_lookup_in (_ # rest) name = Inl TypeError"

definition md_getitem :: "MultiDict \<Rightarrow> string \<Rightarrow> exc + pyval" where
  "md_getitem m name = md_lookup_in (rev (md_sources m)) name"

record VarProvider =
  vars :: "(string \<times> pyval) list"

definition vars_for :: "VarProvider \<Rightarrow> IsFQNResource \<Rightarrow> string \<Rightarrow> MultiDict" where
  "vars_for self node adapter_type =
     md_add (MultiDict [PDict (vars self)])
            (dict_get_default (vars self) (package_name node) (PDict []))"

definition to_dict_vars :: "VarProvider \<Rightarrow> pyval" where
  "to_dict_vars self = PDict (vars self)"

text \<open>The example of the specification: global \<^verbatim>\<open>{a: 1, b: 2}\<close> and, for the package
  \<^verbatim>\<open>pkg\<close>, \<^verbatim>\<open>{b: 9}\<close>. The provider holds one dict, so the package's bucket is the
  entry \<^verbatim>\<open>pkg\<close> of it.\<close>

definition example_vars :: VarProvider where
  "example_vars = \<lparr>vars = [(''a'', PInt 1), (''b'', PInt 2),
                           (''pkg'', PDict [(''b'', PInt 9)])]\<rparr>"

definition node_of :: "string \<Rightarrow> IsFQNResource" where
  "node_of p = \<lparr>fqn = [p, ''m''], resource_type = ''model'', package_name = p\<rparr>"

section \<open>Version ranges\<close>

text \<open>
  Modelled from the spec: \<^verbatim>\<open>dbt.semver\<close> (\<^verbatim>\<open>VersionSpecifier\<close>, \<^verbatim>\<open>versions_compatible\<close>)
  is not in the sources. A range constraint is an operator and a version triple; a
  concrete version satisfies a set of them when it lies in every constraint's region,
  and a set is satisfiable when the regions have a common point, which for intervals
  is: every lower bound meets every upper bound.
\<close>

datatype Matcher = Exact | GreaterThan | GreaterThanOrEqual | LessThan | LessThanOrEqual

record VersionSpecifier =
  matcher :: Matcher
  major :: nat
  minor :: nat
  patch :: nat

definition vless :: "VersionSpecifier \<Rightarrow> VersionSpecifier \<Rightarrow> bool" where
  "vless a b =
     (major a < major b \<or>
      (major a = major b \<and> (minor a < minor b \<or> (minor a = minor b \<and> patch a < patch b))))"

definition vsame :: "VersionSpecifier \<Rightarrow> VersionSpecifier \<Rightarrow> bool" where
  "vsame a b = (major a = major b \<and> minor a = minor b \<and> patch a = patch b)"


text \<open>The lower and the upper end of a constraint's region, with whether it is included.\<close>

definition lower :: "VersionSpecifier \<Rightarrow> (VersionSpecifier \<times> bool) option" where
  "lower s =
     (case matcher s of
        Exact \<Rightarrow> Some (s, True)
      | GreaterThan \<Rightarrow> Some (s, False)
      | GreaterThanOrEqual \<Rightarrow> Some (s, True)
      | _ \<Rightarrow> None)"

definition upper :: "VersionSpecifier \<Rightarrow> (VersionSpecifier \<times> bool) option" where
  "upper s =
     (case matcher s of
        Exact \<Rightarrow> Some (s, True)
      | LessThan \<Rightarrow> Some (s, False)
      | LessThanOrEqual \<Rightarrow> Some (s, True)
      | _ \<Rightarrow> None)"

definition meets ::
  "(VersionSpecifier \<times> bool) option \<Rightarrow> (VersionSpecifier \<times> bool) option \<Rightarrow> bool" where
  "meets lo hi =
     (case (lo, hi) of
        (Some (l, li), Some (h, hi')) \<Rightarrow> vless l h \<or> (vsame l h \<and> li \<and> hi')
      | _ \<Rightarrow> True)"

definition versions_compatible :: "VersionSpecifier list \<Rightarrow> bool" where
  "versions_compatible args =
     list_all (\<lambda>a. list_all (\<lambda>b. meets (lower a) (upper b)) args) args"

definition digit_of :: "nat \<Rightarrow> char" where
  "digit_of n = ''0123456789'' ! n"

fun show_nat :: "nat \<Rightarrow> string" where
  "show_nat n = (if n < 10 then [digit_of n] else show_nat (n div 10) @ [digit_of (n mod 10)])"

definition matcher_text :: "Matcher \<Rightarrow> string" where
  "matcher_text m =
     (case m of Exact \<Rightarrow> ''='' | GreaterThan \<Rightarrow> ''>'' | GreaterThanOrEqual \<Rightarrow> ''>=''
      | LessThan \<Rightarrow> ''<'' | LessThanOrEqual \<Rightarrow> ''<='')"

definition to_version_string :: "VersionSpecifier \<Rightarrow> string" where
  "to_version_string s =
     matcher_text (matcher s) @ show_nat (major s) @ ''.'' @ show_nat (minor s) @ ''.''
       @ show_nat (patch s)"

definition spec_of :: "Matcher \<Rightarrow> nat \<Rightarrow> nat \<Rightarrow> nat \<Rightarrow> VersionSpecifier" where
  "spec_of m a b c = \<lparr>matcher = m, major = a, minor = b, patch = c\<rparr>"

section \<open>The installed version against the required one\<close>

definition nl :: string where
  "nl = [CHR 0x0A]"

definition apo :: string where
  "apo = [CHR 0x27]"

text \<open>The two templates, formatted: \<open>package\<close>, \<open>installed\<close> and \<open>version_spec\<close> are the
  replacement fields of the source's \<^verbatim>\<open>.format\<close> calls.\<close>

definition INVALID_VERSION_ERROR :: "pyval \<Rightarrow> string \<Rightarrow> string list \<Rightarrow> frag list" where
  "INVALID_VERSION_ERROR package installed version_spec =
     [Lit (''This version of dbt is not supported with the '' @ apo), Fld package,
      Lit (apo @ '' package.'' @ nl @ ''  Installed version of dbt: ''),
      Fld (PStr installed),
      Lit (nl @ ''  Required version of dbt for '' @ apo), Fld package,
      Lit (apo @ '': ''), Fld (PList (map PStr version_spec)),
      Lit (nl @ ''Check the requirements for the '' @ apo), Fld package,
      Lit (apo @ '' package, or run dbt again with --no-version-check'' @ nl)]"

definition IMPOSSIBLE_VERSION_ERROR :: "pyval \<Rightarrow> string list \<Rightarrow> frag list" where
  "IMPOSSIBLE_VERSION_ERROR package version_spec =
     [Lit (''The package version requirement can never be satisfied for the '' @ apo),
      Fld package,
      Lit (nl @ ''package.'' @ nl @ ''  Required versions of dbt for '' @ apo),
      Fld package,
      Lit (apo @ '': ''), Fld (PList (map PStr version_spec)),
      Lit (nl @ ''Check the requirements for the '' @ apo), Fld package,
      Lit (apo @ '' package, or run dbt again with --no-version-check'' @ nl)]"

text \<open>\<open>installed\<close> is what \<^verbatim>\<open>get_installed_version()\<close> returns.\<close>

definition validate_version ::
  "VersionSpecifier \<Rightarrow> VersionSpecifier list \<Rightarrow> pyval \<Rightarrow> exc + unit" where
  "validate_version installed required name =
     (if \<not> versions_compatible required
      then Inl (DbtProjectError
             (IMPOSSIBLE_VERSION_ERROR name (map to_version_string required)) None None)
      else if \<not> versions_compatible (installed # required)
      then Inl (DbtProjectError
             (INVALID_VERSION_ERROR name (to_version_string installed)
                (map to_version_string required)) None None)
      else Inr ())"

section \<open>Preprocessing the rendered project\<close>

definition list_if_none :: "pyval \<Rightarrow> pyval" where
  "list_if_none v = (if v = PNone then PList [] else v)"

definition dict_if_none :: "pyval \<Rightarrow> pyval" where
  "dict_if_none v = (if v = PNone then PDict [] else v)"

definition list_if_none_or_string :: "pyval \<Rightarrow> pyval" where
  "list_if_none_or_string v0 =
     (let v = list_if_none v0 in case v of PStr s \<Rightarrow> PList [v] | _ \<Rightarrow> v)"

text \<open>A keypath is the tuple of dict keys and list indices from the root.\<close>

datatype key = K string | I nat

text \<open>
  Modelled from the spec: \<^verbatim>\<open>deep_map\<close> of \<^verbatim>\<open>dbt.utils\<close> is not in the sources. It is the
  traversal of section 4.2: every node is visited with its keypath; a container is
  rebuilt from its visited children; at a scalar node the function is applied to the
  value and the path (the rules of 4.2 transform nulls and strings); a node met again
  while it is on the active path raises the recursion error.
\<close>

fun deep_map :: "(pyval \<Rightarrow> key list \<Rightarrow> pyval) \<Rightarrow> pyval \<Rightarrow> key list \<Rightarrow> exc + pyval"
  and deep_map_list ::
    "(pyval \<Rightarrow> key list \<Rightarrow> pyval) \<Rightarrow> pyval list \<Rightarrow> key list \<Rightarrow> nat \<Rightarrow> exc + pyval list"
  and deep_map_items ::
    "(pyval \<Rightarrow> key list \<Rightarrow> pyval) \<Rightarrow> (string \<times> pyval) list \<Rightarrow> key list
       \<Rightarrow> exc + (string \<times> pyval) list"
where
  "deep_map f (PAlias n) kp = Inl RecursionException"
| "deep_map f (PList xs) kp =
     (case deep_map_list f xs kp 0 of Inl e \<Rightarrow> Inl e | Inr ys \<Rightarrow> Inr (PList ys))"
| "deep_map f (PDict kvs) kp =
     (case deep_map_items f kvs kp of Inl e \<Rightarrow> Inl e | Inr kvs' \<Rightarrow> Inr (PDict kvs'))"
| "deep_map f PNone kp = Inr (f PNone kp)"
| "deep_map f (PBool b) kp = Inr (f (PBool b) kp)"
| "deep_map f (PInt i) kp = Inr (f (PInt i) kp)"
| "deep_map f (PFloat r) kp = Inr (f (PFloat r) kp)"
| "deep_map f (PStr s) kp = Inr (f (PStr s) kp)"
| "deep_map_list f [] kp idx = Inr []"
| "deep_map_list f (x # xs) kp idx =
     (case deep_map f x (kp @ [I idx]) of
        Inl e \<Rightarrow> Inl e
      | Inr y \<Rightarrow> (case deep_map_list f xs kp (Suc idx) of
                   Inl e \<Rightarrow> Inl e
                 | Inr ys \<Rightarrow> Inr (y # ys)))"
| "deep_map_items f [] kp = Inr []"
| "deep_map_items f ((k, v) # kvs) kp =
     (case deep_map f v (kp @ [K k]) of
        Inl e \<Rightarrow> Inl e
      | Inr y \<Rightarrow> (case deep_map_items f kvs kp of
                   Inl e \<Rightarrow> Inl e
                 | Inr kvs' \<Rightarrow> Inr ((k, y) # kvs')))"

text \<open>The handler table of \<^verbatim>\<open>Project._preprocess\<close>, built as the source builds it: two
  entries, then four for each of the three resource types, then one more.\<close>

definition handlers :: "key list \<Rightarrow> (pyval \<Rightarrow> pyval) option" where
  "handlers =
     (fold (\<lambda>k h. h([K k] \<mapsto> dict_if_none,
                    [K k, K ''vars''] \<mapsto> dict_if_none,
                    [K k, K ''pre-hook''] \<mapsto> list_if_none_or_string,
                    [K k, K ''post-hook''] \<mapsto> list_if_none_or_string))
        [''models'', ''seeds'', ''snapshots'']
        [[K ''on-run-start''] \<mapsto> list_if_none_or_string,
         [K ''on-run-end''] \<mapsto> list_if_none_or_string])
     ([K ''seeds'', K ''column_types''] \<mapsto> dict_if_none)"

definition converter :: "pyval \<Rightarrow> key list \<Rightarrow> pyval" where
  "converter v keypath = (case handlers keypath of Some handler \<Rightarrow> handler v | None \<Rightarrow> v)"

definition preprocess :: "(string \<times> pyval) list \<Rightarrow> exc + pyval" where
  "preprocess project_dict = deep_map converter (PDict project_dict) []"



fun has_alias :: "pyval \<Rightarrow> bool" where
  "has_alias (PAlias n) = True"
| "has_alias (PList xs) = list_ex has_alias xs"
| "has_alias (PDict kvs) = list_ex (\<lambda>(k, v). has_alias v) kvs"
| "has_alias _ = False"


section \<open>The project contract and its collaborators\<close>

text \<open>
  Modelled from the spec: \<^verbatim>\<open>QueryComment\<close> of \<^verbatim>\<open>dbt.contracts.connection\<close> is not in the
  sources. It is the query-comment descriptor of section 4.4: a comment text and an
  append flag, serialised under those two keys. As an object without a length or a
  truth method, it is true in a condition.
\<close>

datatype QueryComment = QueryComment (qc_comment: string) (qc_append: bool)

definition qc_to_dict :: "QueryComment \<Rightarrow> pyval" where
  "qc_to_dict q = PDict [(''comment'', PStr (qc_comment q)), (''append'', PBool (qc_append q))]"

definition qc_truthy :: "QueryComment \<Rightarrow> bool" where
  "qc_truthy q = True"

text \<open>What \<^verbatim>\<open>cfg.query_comment\<close> can be: None, a string, the \<^verbatim>\<open>NoValue\<close> marker, or a
  \<^verbatim>\<open>QueryComment\<close>.\<close>

datatype cfg_query_comment = QCNone | QCStr string | QCNoValue | QCObj QueryComment

text \<open>
  The checked object that \<^verbatim>\<open>ProjectContract.from_dict\<close> returns: the fields that
  \<open>from_project_config\<close> reads. The quoting object is held by its \<^verbatim>\<open>to_dict()\<close>.
\<close>

record ProjectContract =
  cfg_name :: string
  cfg_version :: pyval
  cfg_project_root :: "string option"
  cfg_profile :: "string option"
  cfg_source_paths :: "string list option"
  cfg_macro_paths :: "string list option"
  cfg_data_paths :: "string list option"
  cfg_test_paths :: "string list option"
  cfg_analysis_paths :: "string list option"
  cfg_docs_paths :: "string list option"
  cfg_asset_paths :: "string list option"
  cfg_target_path :: "string option"
  cfg_snapshot_paths :: "string list option"
  cfg_clean_targets :: "string list option"
  cfg_log_path :: "string option"
  cfg_modules_path :: "string option"
  cfg_quoting :: "pyval option"
  cfg_on_run_start :: "string list option"
  cfg_on_run_end :: "string list option"
  cfg_models :: pyval
  cfg_seeds :: pyval
  cfg_snapshots :: pyval
  cfg_sources :: pyval
  cfg_vars :: "(string \<times> pyval) list option"
  cfg_query_comment :: cfg_query_comment
  cfg_config_version :: int

text \<open>The package and selector collections, held by what they serialise to.\<close>

datatype PackageConfig = PackageConfig (pc_to_dict: "(string \<times> pyval) list")

datatype SelectorConfig = SelectorConfig (sel_entries: "(string \<times> pyval) list")

text \<open>
  The collaborators outside the sources, as parameters. A validator returns the checked
  object or the message of its \<^verbatim>\<open>ValidationError\<close>; \<open>from_version_string\<close> returns the
  specifier or the text of its \<^verbatim>\<open>SemverException\<close>; \<open>selector_config_from_data\<close> may raise
  any exception.
\<close>

record collab =
  contract_from_dict :: "pyval \<Rightarrow> frag list + ProjectContract"
  validator_error_message :: "frag list \<Rightarrow> frag list"
  package_from_dict :: "pyval \<Rightarrow> frag list + PackageConfig"
  selector_config_from_data :: "pyval \<Rightarrow> exc + SelectorConfig"
  from_version_string :: "pyval \<Rightarrow> frag list + VersionSpecifier"
  default_query_comment :: string

section \<open>Helpers of the module\<close>

definition MALFORMED_PACKAGE_ERROR :: "frag list \<Rightarrow> frag list" where
  "MALFORMED_PACKAGE_ERROR error =
     [Lit (''The packages.yml file in this project is malformed. Please double check'' @ nl
           @ ''the contents of this file and fix any errors before retrying.'' @ nl @ nl
           @ ''You can find more information on the syntax for this file here:'' @ nl
           @ ''https://docs.getdbt.com/docs/package-management'' @ nl @ nl
           @ ''Validator Error:'' @ nl)]
     @ error @ [Lit nl]"

definition package_config_from_data :: "collab \<Rightarrow> pyval \<Rightarrow> exc + PackageConfig" where
  "package_config_from_data c packages_data0 =
     (let packages_data =
            (if packages_data0 = PNone then PDict [(''packages'', PList [])] else packages_data0)
      in case package_from_dict c packages_data of
           Inl m \<Rightarrow> Inl (DbtProjectError (MALFORMED_PACKAGE_ERROR m) None None)
         | Inr packages \<Rightarrow> Inr packages)"

fun split_on :: "char \<Rightarrow> string \<Rightarrow> string list" where
  "split_on c [] = [[]]"
| "split_on c (x # xs) =
     (if x = c then [] # split_on c xs
      else (case split_on c xs of w # ws \<Rightarrow> (x # w) # ws | [] \<Rightarrow> [[x]]))"

fun parse_each :: "collab \<Rightarrow> pyval list \<Rightarrow> frag list + VersionSpecifier list" where
  "parse_each c [] = Inr []"
| "parse_each c (v # vs) =
     (case from_version_string c v of
        Inl m \<Rightarrow> Inl m
      | Inr s \<Rightarrow> (case parse_each c vs of Inl m \<Rightarrow> Inl m | Inr ss \<Rightarrow> Inr (s # ss)))"

text \<open>\<open>Inl None\<close> is the TypeError of iterating a value that is not iterable;
  \<open>Inl (Some m)\<close> is the SemverException with text \<open>m\<close>.\<close>

definition parse_versions :: "collab \<Rightarrow> pyval \<Rightarrow> frag list option + VersionSpecifier list" where
  "parse_versions c versions =
     (let items =
            (case versions of
               PStr s \<Rightarrow> Some (map PStr (split_on CHR '','' s))
             | PList vs \<Rightarrow> Some vs
             | PDict kvs \<Rightarrow> Some (map (\<lambda>(k, v). PStr k) kvs)
             | _ \<Rightarrow> None)
      in case items of
           None \<Rightarrow> Inl None
         | Some vs \<Rightarrow> (case parse_each c vs of Inl m \<Rightarrow> Inl (Some m) | Inr r \<Rightarrow> Inr r))"

definition all_source_paths_of ::
  "string list \<Rightarrow> string list \<Rightarrow> string list \<Rightarrow> string list \<Rightarrow> string list \<Rightarrow> string list" where
  "all_source_paths_of source_paths0 data_paths0 snapshot_paths0 analysis_paths0 macro_paths0 =
     source_paths0 @ data_paths0 @ snapshot_paths0 @ analysis_paths0 @ macro_paths0"

definition value_or :: "'a option \<Rightarrow> 'a \<Rightarrow> 'a" where
  "value_or v dflt = (case v of None \<Rightarrow> dflt | Some x \<Rightarrow> x)"

definition query_comment_from_cfg :: "collab \<Rightarrow> cfg_query_comment \<Rightarrow> QueryComment" where
  "query_comment_from_cfg c q =
     (case q of
        QCNone \<Rightarrow> QueryComment '''' False
      | QCStr s \<Rightarrow> (if s = '''' then QueryComment '''' False else QueryComment s False)
      | QCNoValue \<Rightarrow> QueryComment (default_query_comment c) False
      | QCObj obj \<Rightarrow> obj)"

definition get_required_version ::
  "collab \<Rightarrow> VersionSpecifier \<Rightarrow> (string \<times> pyval) list \<Rightarrow> bool
     \<Rightarrow> exc + VersionSpecifier list" where
  "get_required_version c installed rendered_project verify =
     (let required = dict_get rendered_project ''require-dbt-version'';
          dbt_raw_version = (if required \<noteq> PNone then required else PStr ''>=0.0.0'')
      in case parse_versions c dbt_raw_version of
           Inl None \<Rightarrow> Inl TypeError
         | Inl (Some m) \<Rightarrow> Inl (DbtProjectError m None None)
         | Inr dbt_version0 \<Rightarrow>
             if verify then
               (case map_of rendered_project ''name'' of
                  None \<Rightarrow> Inl (DbtProjectError
                            [Lit (''Required '' @ [CHR 0x22] @ ''name'' @ [CHR 0x22]
                                  @ '' field not present in project'')] None None)
                | Some name \<Rightarrow>
                    (case validate_version installed dbt_version0 name of
                       Inl e \<Rightarrow> Inl e
                     | Inr u \<Rightarrow> Inr dbt_version0))
             else Inr dbt_version0)"

section \<open>The resolved project\<close>

record Project =
  project_name :: string
  version :: pyval
  project_root :: string
  profile_name :: "string option"
  source_paths :: "string list"
  macro_paths :: "string list"
  data_paths :: "string list"
  test_paths :: "string list"
  analysis_paths :: "string list"
  docs_paths :: "string list"
  asset_paths :: "string list"
  target_path :: string
  snapshot_paths :: "string list"
  clean_targets :: "string list"
  log_path :: string
  modules_path :: string
  quoting :: pyval
  models :: pyval
  on_run_start :: "string list"
  on_run_end :: "string list"
  seeds :: pyval
  snapshots :: pyval
  sources :: pyval
  vars_value :: VarProvider
  dbt_version :: "VersionSpecifier list"
  packages :: PackageConfig
  selectors :: SelectorConfig
  query_comment :: QueryComment
  config_version :: int

definition strs :: "string list \<Rightarrow> pyval" where
  "strs xs = PList (map PStr xs)"

definition opt_str :: "string option \<Rightarrow> pyval" where
  "opt_str v = (case v of None \<Rightarrow> PNone | Some s \<Rightarrow> PStr s)"

text \<open>\<^verbatim>\<open>d[k] = v\<close> and \<^verbatim>\<open>d.update(other)\<close> on a dict.\<close>

fun dict_set :: "(string \<times> pyval) list \<Rightarrow> string \<Rightarrow> pyval \<Rightarrow> (string \<times> pyval) list" where
  "dict_set [] k v = [(k, v)]"
| "dict_set ((k', v') # d) k v = (if k' = k then (k, v) # d else (k', v') # dict_set d k v)"

definition dict_update ::
  "(string \<times> pyval) list \<Rightarrow> (string \<times> pyval) list \<Rightarrow> (string \<times> pyval) list" where
  "dict_update d other = fold (\<lambda>(k, v) acc. dict_set acc k v) other d"

definition to_project_config :: "Project \<Rightarrow> bool \<Rightarrow> (string \<times> pyval) list" where
  "to_project_config self with_packages =
     (let result0 =
            [(''name'', PStr (project_name self)),
             (''version'', version self),
             (''project-root'', PStr (project_root self)),
             (''profile'', opt_str (profile_name self)),
             (''source-paths'', strs (source_paths self)),
             (''macro-paths'', strs (macro_paths self)),
             (''data-paths'', strs (data_paths self)),
             (''test-paths'', strs (test_paths self)),
             (''analysis-paths'', strs (analysis_paths self)),
             (''docs-paths'', strs (docs_paths self)),
             (''asset-paths'', strs (asset_paths self)),
             (''target-path'', PStr (target_path self)),
             (''snapshot-paths'', strs (snapshot_paths self)),
             (''clean-targets'', strs (clean_targets self)),
             (''log-path'', PStr (log_path self)),
             (''quoting'', quoting self),
             (''models'', models self),
             (''on-run-start'', strs (on_run_start self)),
             (''on-run-end'', strs (on_run_end self)),
             (''seeds'', seeds self),
             (''snapshots'', snapshots self),
             (''sources'', sources self),
             (''vars'', to_dict_vars (vars_value self)),
             (''require-dbt-version'', strs (map to_version_string (dbt_version self))),
             (''config-version'', PInt (config_version self))];
          result1 =
            (if qc_truthy (query_comment self)
             then dict_set result0 ''query-comment'' (qc_to_dict (query_comment self))
             else result0)
      in if with_packages then dict_update result1 (pc_to_dict (packages self)) else result1)"

definition validate :: "collab \<Rightarrow> Project \<Rightarrow> exc + unit" where
  "validate c self =
     (case contract_from_dict c (PDict (to_project_config self False)) of
        Inl m \<Rightarrow> Inl (DbtProjectError (validator_error_message c m) None None)
      | Inr cfg \<Rightarrow> Inr ())"

text \<open>
  \<^verbatim>\<open>Project.from_project_config\<close>, in two parts: \<open>assemble\<close> is the body of the source's
  function from the checked \<^verbatim>\<open>cfg\<close> on (the project root, the defaults, the
  config-version check, packages, selectors, construction and the self-check), and
  \<open>from_project_config\<close> is the whole function. \<open>installed\<close> stands for
  \<^verbatim>\<open>get_installed_version()\<close>; it is only passed on to \<open>get_required_version\<close>, which does
  not read it here (\<^verbatim>\<open>verify_version\<close> is false).
\<close>

definition assemble ::
  "collab \<Rightarrow> ProjectContract \<Rightarrow> VersionSpecifier list \<Rightarrow> pyval \<Rightarrow> pyval \<Rightarrow> exc + Project" where
  "assemble c cfg dbt_version0 packages_dict selectors_dict =
     (case cfg_project_root cfg of
        None \<Rightarrow> Inl (DbtProjectError [Lit ''cfg must have a project root!''] None None)
      | Some project_root0 \<Rightarrow>
        (let source_paths0 = value_or (cfg_source_paths cfg) [''models''];
             macro_paths0 = value_or (cfg_macro_paths cfg) [''macros''];
             data_paths0 = value_or (cfg_data_paths cfg) [''data''];
             test_paths0 = value_or (cfg_test_paths cfg) [''test''];
             analysis_paths0 = value_or (cfg_analysis_paths cfg) [];
             snapshot_paths0 = value_or (cfg_snapshot_paths cfg) [''snapshots''];
             all_source_paths0 = all_source_paths_of source_paths0 data_paths0 snapshot_paths0
                                   analysis_paths0 macro_paths0;
             docs_paths0 = value_or (cfg_docs_paths cfg) all_source_paths0;
             asset_paths0 = value_or (cfg_asset_paths cfg) [];
             target_path0 = value_or (cfg_target_path cfg) ''target'';
             clean_targets0 = value_or (cfg_clean_targets cfg) [target_path0];
             log_path0 = value_or (cfg_log_path cfg) ''logs'';
             modules_path0 = value_or (cfg_modules_path cfg) ''dbt_modules'';
             quoting0 = (case cfg_quoting cfg of None \<Rightarrow> PDict [] | Some q \<Rightarrow> q)
         in if cfg_config_version cfg \<noteq> 2
            then Inl (ValidationError
                   [Lit ''Got unsupported config_version='', Fld (PInt (cfg_config_version cfg))])
            else
              (let vars_dict = (case cfg_vars cfg of None \<Rightarrow> [] | Some d \<Rightarrow> d);
                   on_run_start0 = value_or (cfg_on_run_start cfg) [];
                   on_run_end0 = value_or (cfg_on_run_end cfg) [];
                   query_comment0 = query_comment_from_cfg c (cfg_query_comment cfg)
               in case package_config_from_data c packages_dict of
                    Inl (ValidationError m) \<Rightarrow>
                      Inl (DbtProjectError (validator_error_message c m) None None)
                  | Inl e \<Rightarrow> Inl e
                  | Inr packages0 \<Rightarrow>
                    (case selector_config_from_data c selectors_dict of
                       Inl (ValidationError m) \<Rightarrow>
                         Inl (DbtProjectError (validator_error_message c m) None None)
                     | Inl e \<Rightarrow> Inl e
                     | Inr selectors0 \<Rightarrow>
                       (let project =
                          \<lparr>project_name = cfg_name cfg, version = cfg_version cfg,
                           project_root = project_root0, profile_name = cfg_profile cfg,
                           source_paths = source_paths0, macro_paths = macro_paths0,
                           data_paths = data_paths0, test_paths = test_paths0,
                           analysis_paths = analysis_paths0, docs_paths = docs_paths0,
                           asset_paths = asset_paths0, target_path = target_path0,
                           snapshot_paths = snapshot_paths0, clean_targets = clean_targets0,
                           log_path = log_path0, modules_path = modules_path0,
                           quoting = quoting0, models = cfg_models cfg,
                           on_run_start = on_run_start0, on_run_end = on_run_end0,
                           seeds = cfg_seeds cfg, snapshots = cfg_snapshots cfg,
                           sources = cfg_sources cfg, vars_value = \<lparr>vars = vars_dict\<rparr>,
                           dbt_version = dbt_version0, packages = packages0,
                           selectors = selectors0, query_comment = query_comment0,
                           config_version = cfg_config_version cfg\<rparr>
                        in case validate c project of
                             Inl e \<Rightarrow> Inl e
                           | Inr u \<Rightarrow> Inr project)))))"

definition cycle_error :: "(string \<times> pyval) list \<Rightarrow> exc" where
  "cycle_error project_dict0 =
     DbtProjectError [Lit ''Cycle detected: Project input has a reference to itself'']
       (Some (PDict project_dict0)) None"

definition from_project_config ::
  "collab \<Rightarrow> VersionSpecifier \<Rightarrow> (string \<times> pyval) list \<Rightarrow> pyval \<Rightarrow> pyval
     \<Rightarrow> VersionSpecifier list option \<Rightarrow> exc + Project" where
  "from_project_config c installed project_dict0 packages_dict selectors_dict
       required_dbt_version =
     (case (case required_dbt_version of
              None \<Rightarrow> get_required_version c installed project_dict0 False
            | Some r \<Rightarrow> Inr r) of
        Inl e \<Rightarrow> Inl e
      | Inr dbt_version0 \<Rightarrow>
        (case preprocess project_dict0 of
           Inl RecursionException \<Rightarrow> Inl (cycle_error project_dict0)
         | Inl e \<Rightarrow> Inl e
         | Inr project_dict1 \<Rightarrow>
           (case contract_from_dict c project_dict1 of
              Inl m \<Rightarrow> Inl (DbtProjectError (validator_error_message c m) None None)
            | Inr cfg \<Rightarrow> assemble c cfg dbt_version0 packages_dict selectors_dict)))"

section \<open>Objects and equality\<close>

text \<open>
  The classes an object compared with a project can have: \<open>ProjectClass\<close> itself and
  \<open>DerivedClass\<close>, a class that inherits from it (and inherits \<open>to_project_config\<close>).
  Any other object is an \<open>OtherObj\<close>.
\<close>

datatype pyclass = ProjectClass | DerivedClass

definition issubclass :: "pyclass \<Rightarrow> pyclass \<Rightarrow> bool" where
  "issubclass k c = (k = c \<or> (k = DerivedClass \<and> c = ProjectClass))"

datatype pyobject = ProjectObj pyclass Project | OtherObj pyval

definition isinstance :: "pyobject \<Rightarrow> pyclass \<Rightarrow> bool" where
  "isinstance obj c = (case obj of ProjectObj k p \<Rightarrow> issubclass k c | OtherObj v \<Rightarrow> False)"

text \<open>\<^verbatim>\<open>Project.__eq__\<close>, for \<open>self\<close> of class \<open>c\<close>.\<close>

definition project_eq :: "pyclass \<Rightarrow> Project \<Rightarrow> pyobject \<Rightarrow> bool" where
  "project_eq c self other =
     (case other of
        OtherObj v \<Rightarrow> False
      | ProjectObj k q \<Rightarrow>
          if \<not> (isinstance other c \<and> isinstance (ProjectObj c self) k) then False
          else py_eq (PDict (to_project_config self True)) (PDict (to_project_config q True)))"

section \<open>Collaborators and inputs for the examples\<close>

fun strs_of_list :: "pyval list \<Rightarrow> string list option" where
  "strs_of_list [] = Some []"
| "strs_of_list (PStr s # r) = map_option (Cons s) (strs_of_list r)"
| "strs_of_list (_ # r) = None"

definition field_str :: "(string \<times> pyval) list \<Rightarrow> string \<Rightarrow> string option" where
  "field_str d k = (case map_of d k of Some (PStr s) \<Rightarrow> Some s | _ \<Rightarrow> None)"

definition field_strs :: "(string \<times> pyval) list \<Rightarrow> string \<Rightarrow> string list option" where
  "field_strs d k = (case map_of d k of Some (PList xs) \<Rightarrow> strs_of_list xs | _ \<Rightarrow> None)"

text \<open>
  A schema validator for the examples: it wants a dict with a string \<^verbatim>\<open>name\<close>, reads
  the other fields where they have the right shape, and takes \<^verbatim>\<open>config-version\<close> as 1
  when it is absent. The strict one also refuses a null \<^verbatim>\<open>profile\<close>.
\<close>

definition example_from_dict :: "bool \<Rightarrow> pyval \<Rightarrow> frag list + ProjectContract" where
  "example_from_dict strict v =
     (case v of
        PDict d \<Rightarrow>
          (case map_of d ''name'' of
             Some (PStr n) \<Rightarrow>
               if strict \<and> map_of d ''profile'' = Some PNone
               then Inl [Lit ''None is not of type string'']
               else Inr \<lparr>cfg_name = n, cfg_version = dict_get d ''version'',
                     cfg_project_root = field_str d ''project-root'',
                     cfg_profile = field_str d ''profile'',
                     cfg_source_paths = field_strs d ''source-paths'',
                     cfg_macro_paths = field_strs d ''macro-paths'',
                     cfg_data_paths = field_strs d ''data-paths'',
                     cfg_test_paths = field_strs d ''test-paths'',
                     cfg_analysis_paths = field_strs d ''analysis-paths'',
                     cfg_docs_paths = field_strs d ''docs-paths'',
                     cfg_asset_paths = field_strs d ''asset-paths'',
                     cfg_target_path = field_str d ''target-path'',
                     cfg_snapshot_paths = field_strs d ''snapshot-paths'',
                     cfg_clean_targets = field_strs d ''clean-targets'',
                     cfg_log_path = field_str d ''log-path'',
                     cfg_modules_path = field_str d ''modules-path'',
                     cfg_quoting = map_of d ''quoting'',
                     cfg_on_run_start = field_strs d ''on-run-start'',
                     cfg_on_run_end = field_strs d ''on-run-end'',
                     cfg_models = dict_get_default d ''models'' (PDict []),
                     cfg_seeds = dict_get_default d ''seeds'' (PDict []),
                     cfg_snapshots = dict_get_default d ''snapshots'' (PDict []),
                     cfg_sources = dict_get_default d ''sources'' (PDict []),
                     cfg_vars = (case map_of d ''vars'' of Some (PDict kv) \<Rightarrow> Some kv | _ \<Rightarrow> None),
                     cfg_query_comment =
                       (case map_of d ''query-comment'' of Some (PStr s) \<Rightarrow> QCStr s | _ \<Rightarrow> QCNone),
                     cfg_config_version =
                       (case map_of d ''config-version'' of Some (PInt i) \<Rightarrow> i | _ \<Rightarrow> 1)\<rparr>
           | _ \<Rightarrow> Inl [Lit ''name is a required property''])
      | _ \<Rightarrow> Inl [Lit ''the project is not a mapping''])"

definition example_collab :: "bool \<Rightarrow> collab" where
  "example_collab strict =
     \<lparr>contract_from_dict = example_from_dict strict,
      validator_error_message = (\<lambda>m. m),
      package_from_dict =
        (\<lambda>v. case v of PDict d \<Rightarrow> Inr (PackageConfig d)
                      | _ \<Rightarrow> Inl [Lit ''the packages are not a mapping'']),
      selector_config_from_data = (\<lambda>v. Inr (SelectorConfig [])),
      from_version_string = (\<lambda>v. Inr (spec_of GreaterThanOrEqual 0 0 0)),
      default_query_comment = ''dbt''\<rparr>"

definition installed_example :: VersionSpecifier where
  "installed_example = spec_of Exact 0 19 0"

text \<open>A rendered project that names only what is required, one with a null profile,
  one of schema version 1, and one that holds itself under \<^verbatim>\<open>models\<close>.\<close>

definition minimal_project :: "(string \<times> pyval) list" where
  "minimal_project =
     [(''name'', PStr ''jaffle''), (''version'', PStr ''1.0''),
      (''config-version'', PInt 2), (''project-root'', PStr ''/proj'')]"

definition null_profile_project :: "(string \<times> pyval) list" where
  "null_profile_project = minimal_project @ [(''profile'', PNone)]"


definition cyclic_project :: "(string \<times> pyval) list" where
  "cyclic_project = minimal_project @ [(''models'', PDict [(''self'', PAlias 1)])]"

text \<open>The project that \<open>minimal_project\<close> resolves to.\<close>

definition minimal_resolved :: Project where
  "minimal_resolved =
     \<lparr>project_name = ''jaffle'', version = PStr ''1.0'', project_root = ''/proj'',
      profile_name = None, source_paths = [''models''], macro_paths = [''macros''],
      data_paths = [''data''], test_paths = [''test''], analysis_paths = [],
      docs_paths = [''models'', ''data'', ''snapshots'', ''macros''], asset_paths = [],
      target_path = ''target'', snapshot_paths = [''snapshots''],
      clean_targets = [''target''], log_path = ''logs'', modules_path = ''dbt_modules'',
      quoting = PDict [], models = PDict [], on_run_start = [], on_run_end = [],
      seeds = PDict [], snapshots = PDict [], sources = PDict [],
      vars_value = \<lparr>vars = []\<rparr>, dbt_version = [spec_of GreaterThanOrEqual 0 0 0],
      packages = PackageConfig [(''packages'', PList [])],
      selectors = SelectorConfig [], query_comment = QueryComment '''' False,
      config_version = 2\<rparr>"

section \<open>Config-version gating at partial load\<close>

lemma py_eq_two: "py_eq v (PInt 2) \<longleftrightarrow> v = PInt 2 \<or> v = PFloat 2"
  by (cases v) auto

text \<open>
  C2, as stated, fails: a manifest with \<^verbatim>\<open>config-version: 2.0\<close> holds a value that is not
  the integer 2, and \<open>partial_load\<close> returns a partial project for it.
\<close>

theorem partial_load_float_counterexample:
  "PFloat 2 \<noteq> PInt 2 \<and>
   partial_load float_env ''proj'' True =
     Inr \<lparr>pp_config_version = PFloat 2, pp_profile_name = PNone, pp_project_name = PStr ''jaffle'',
          pp_project_root = ''proj'',
          pp_project_dict = [(''name'', PStr ''jaffle''), (''config-version'', PFloat 2)],
          pp_verify_version = True\<rparr>"
  by (simp add: partial_load_def raw_project_from_def float_env_def path_join_def
      dict_get_def dict_get_default_def Let_def)

text \<open>
  C2, amended: \<open>partial_load\<close> reads \<^verbatim>\<open>config-version\<close> from the raw dict, with 1 for an
  absent key. For every value that does not compare equal to 2 (every value but the
  integer 2 and the float 2.0) it raises the project error that names the value and the
  manifest's path, and nothing is rendered. For a value equal to 2 it returns the
  partial project with that value, the raw dict, and the name and profile (None when
  absent).
\<close>

theorem partial_load_config_version:
  assumes "raw_project_from e (normpath e base) = Inr d"
  shows "(map_of d ''config-version'' = None \<longrightarrow>
            partial_load e base verify =
              Inl (DbtProjectError
                [Lit ''Invalid config version: '', Fld (PInt 1), Lit '', expected 2'']
                None (Some (path_join (normpath e base) ''dbt_project.yml''))))
       \<and> (\<forall>v. map_of d ''config-version'' = Some v \<and> v \<noteq> PInt 2 \<and> v \<noteq> PFloat 2 \<longrightarrow>
            partial_load e base verify =
              Inl (DbtProjectError
                [Lit ''Invalid config version: '', Fld v, Lit '', expected 2'']
                None (Some (path_join (normpath e base) ''dbt_project.yml''))))
       \<and> (\<forall>v. map_of d ''config-version'' = Some v \<and> (v = PInt 2 \<or> v = PFloat 2) \<longrightarrow>
            partial_load e base verify =
              Inr \<lparr>pp_config_version = v,
                   pp_profile_name = (case map_of d ''profile'' of None \<Rightarrow> PNone | Some x \<Rightarrow> x),
                   pp_project_name = (case map_of d ''name'' of None \<Rightarrow> PNone | Some x \<Rightarrow> x),
                   pp_project_root = normpath e base, pp_project_dict = d,
                   pp_verify_version = verify\<rparr>)"
proof -
  have ne: "\<And>v. (\<not> py_eq v (PInt 2)) = (v \<noteq> PInt 2 \<and> v \<noteq> PFloat 2)"
    using py_eq_two by blast
  show ?thesis
    using assms
    unfolding partial_load_def Let_def dict_get_def dict_get_default_def ne
    by auto
qed


theorem partial_load_config_version_witness:
  "partial_load v2_env ''proj'' False =
     Inr \<lparr>pp_config_version = PInt 2, pp_profile_name = PStr ''dev'', pp_project_name = PStr ''jaffle'',
          pp_project_root = ''proj'',
          pp_project_dict = [(''name'', PStr ''jaffle''), (''config-version'', PInt 2),
                          (''profile'', PStr ''dev'')],
          pp_verify_version = False\<rparr>
   \<and> partial_load v1_env ''proj'' False =
     Inl (DbtProjectError
       [Lit ''Invalid config version: '', Fld (PInt 1), Lit '', expected 2'']
       None (Some ''proj/dbt_project.yml''))"
proof -
  have h2: "raw_project_from v2_env (normpath v2_env ''proj'') =
      Inr [(''name'', PStr ''jaffle''), (''config-version'', PInt 2), (''profile'', PStr ''dev'')]"
    by (simp add: raw_project_from_def v2_env_def path_join_def)
  have h1: "raw_project_from v1_env (normpath v1_env ''proj'') = Inr [(''name'', PStr ''jaffle'')]"
    by (simp add: raw_project_from_def v1_env_def path_join_def)
  show ?thesis
    using partial_load_config_version [OF h2, of False]
      partial_load_config_version [OF h1, of False]
    by (simp add: v1_env_def v2_env_def path_join_def)
qed

section \<open>Precedence of package-scoped variables\<close>

text \<open>
  C5, as stated, fails on the example: the overlay for a node of \<^verbatim>\<open>pkg\<close> is not
  \<^verbatim>\<open>{a: 1, b: 9}\<close>, since it also answers for the key \<^verbatim>\<open>pkg\<close> (the package's bucket
  is an entry of the global dict), where \<^verbatim>\<open>{a: 1, b: 9}\<close> raises KeyError.
\<close>

theorem vars_for_example_counterexample:
  "md_getitem (vars_for example_vars (node_of ''pkg'') ''postgres'') ''pkg''
     = Inr (PDict [(''b'', PInt 9)])
   \<and> md_getitem (MultiDict [PDict [(''a'', PInt 1), (''b'', PInt 9)]]) ''pkg''
     = Inl (KeyError ''pkg'')"
  by (simp add: md_getitem_def vars_for_def md_add_def example_vars_def node_of_def
      dict_get_default_def)

text \<open>
  C5, amended: when the entry of the provider's dict under the node's package name is a
  dict \<open>b\<close> (or is absent, which reads as the empty dict), \<open>vars_for\<close> returns an overlay
  whose sources are the provider's dict and \<open>b\<close> themselves, unchanged; a key of \<open>b\<close>
  resolves to its value in \<open>b\<close>, any other key to its value in the provider's dict, and
  a key of neither raises KeyError. On the example, a node of \<^verbatim>\<open>pkg\<close> reads \<^verbatim>\<open>a\<close> as 1
  and \<^verbatim>\<open>b\<close> as 9, a node of a package with no entry reads \<^verbatim>\<open>a\<close> as 1 and \<^verbatim>\<open>b\<close> as 2,
  and both also read the key \<^verbatim>\<open>pkg\<close>.
\<close>

theorem vars_for_precedence:
  assumes "dict_get_default (vars self) (package_name node) (PDict []) = PDict b"
  shows "md_sources (vars_for self node adapter_type) = [PDict (vars self), PDict b]
       \<and> md_getitem (vars_for self node adapter_type) k =
           (case map_of b k of
              Some v \<Rightarrow> Inr v
            | None \<Rightarrow> (case map_of (vars self) k of
                         Some v \<Rightarrow> Inr v
                       | None \<Rightarrow> Inl (KeyError k)))"
  using assms
  by (simp add: vars_for_def md_add_def md_getitem_def split: option.splits)

theorem vars_for_precedence_witness:
  "md_getitem (vars_for example_vars (node_of ''pkg'') ''postgres'') ''a'' = Inr (PInt 1)
   \<and> md_getitem (vars_for example_vars (node_of ''pkg'') ''postgres'') ''b'' = Inr (PInt 9)
   \<and> md_getitem (vars_for example_vars (node_of ''other'') ''postgres'') ''a'' = Inr (PInt 1)
   \<and> md_getitem (vars_for example_vars (node_of ''other'') ''postgres'') ''b'' = Inr (PInt 2)
   \<and> md_getitem (vars_for example_vars (node_of ''other'') ''postgres'') ''c''
       = Inl (KeyError ''c'')"
proof -
  have hp: "dict_get_default (vars example_vars) (package_name (node_of ''pkg'')) (PDict [])
      = PDict [(''b'', PInt 9)]"
    by (simp add: dict_get_default_def example_vars_def node_of_def)
  have ho: "dict_get_default (vars example_vars) (package_name (node_of ''other'')) (PDict [])
      = PDict []"
    by (simp add: dict_get_default_def example_vars_def node_of_def)
  show ?thesis
    using vars_for_precedence [OF hp, of "''postgres''" "''a''"]
      vars_for_precedence [OF hp, of "''postgres''" "''b''"]
      vars_for_precedence [OF ho, of "''postgres''" "''a''"]
      vars_for_precedence [OF ho, of "''postgres''" "''b''"]
      vars_for_precedence [OF ho, of "''postgres''" "''c''"]
    by (simp add: example_vars_def)
qed


section \<open>The two-stage version check\<close>






section \<open>What preprocessing changes\<close>

lemma handlers_cases:
  "handlers kp =
     (if kp \<in> {[K ''on-run-start''], [K ''on-run-end''],
               [K ''models'', K ''pre-hook''], [K ''models'', K ''post-hook''],
               [K ''seeds'', K ''pre-hook''], [K ''seeds'', K ''post-hook''],
               [K ''snapshots'', K ''pre-hook''], [K ''snapshots'', K ''post-hook'']}
      then Some list_if_none_or_string
      else if kp \<in> {[K ''models''], [K ''seeds''], [K ''snapshots''],
               [K ''models'', K ''vars''], [K ''seeds'', K ''vars''],
               [K ''snapshots'', K ''vars''], [K ''seeds'', K ''column_types'']}
      then Some dict_if_none
      else None)"
  unfolding handlers_def by (simp add: fun_upd_def)






lemma deep_map_error:
  "deep_map f v kp = Inl e \<Longrightarrow> e = RecursionException"
  "deep_map_list f xs kp i = Inl e \<Longrightarrow> e = RecursionException"
  "deep_map_items f kvs kp = Inl e \<Longrightarrow> e = RecursionException"
  by (induction f v kp and f xs kp i and f kvs kp rule: deep_map_deep_map_list_deep_map_items.induct)
     (auto split: sum.splits)

lemma deep_map_no_alias:
  "deep_map f v kp = Inr v' \<Longrightarrow> \<not> has_alias v"
  "deep_map_list f xs kp i = Inr ys \<Longrightarrow> \<not> list_ex has_alias xs"
  "deep_map_items f kvs kp = Inr kvs' \<Longrightarrow> \<not> list_ex (\<lambda>(k, v). has_alias v) kvs"
  by (induction f v kp and f xs kp i and f kvs kp arbitrary: v' and ys and kvs'
      rule: deep_map_deep_map_list_deep_map_items.induct)
     (auto split: sum.splits)

lemma deep_map_cycle:
  assumes "has_alias v"
  shows "deep_map f v kp = Inl RecursionException"
proof (cases "deep_map f v kp")
  case (Inl e)
  then show ?thesis using deep_map_error(1) by blast
next
  case (Inr v')
  then show ?thesis using deep_map_no_alias(1) assms by blast
qed





section \<open>What the assembly routine returns\<close>

lemma assemble_fields:
  assumes "assemble c cfg dv pk sel = Inr p"
  shows "source_paths p = value_or (cfg_source_paths cfg) [''models'']"
    and "macro_paths p = value_or (cfg_macro_paths cfg) [''macros'']"
    and "data_paths p = value_or (cfg_data_paths cfg) [''data'']"
    and "test_paths p = value_or (cfg_test_paths cfg) [''test'']"
    and "analysis_paths p = value_or (cfg_analysis_paths cfg) []"
    and "snapshot_paths p = value_or (cfg_snapshot_paths cfg) [''snapshots'']"
    and "docs_paths p = value_or (cfg_docs_paths cfg)
           (source_paths p @ data_paths p @ snapshot_paths p @ analysis_paths p @ macro_paths p)"
    and "asset_paths p = value_or (cfg_asset_paths cfg) []"
    and "target_path p = value_or (cfg_target_path cfg) ''target''"
    and "clean_targets p = value_or (cfg_clean_targets cfg) [target_path p]"
    and "log_path p = value_or (cfg_log_path cfg) ''logs''"
    and "on_run_start p = value_or (cfg_on_run_start cfg) []"
    and "on_run_end p = value_or (cfg_on_run_end cfg) []"
    and "config_version p = 2"
    and "validate c p = Inr ()"
  using assms
  by (auto simp: assemble_def Let_def all_source_paths_of_def
      split: option.splits if_splits sum.splits exc.splits)

lemma from_project_config_Inr:
  assumes "from_project_config c i d pk sel rv = Inr p"
  shows "\<exists>dv d' cfg. preprocess d = Inr d' \<and> contract_from_dict c d' = Inr cfg
           \<and> assemble c cfg dv pk sel = Inr p"
  using assms unfolding from_project_config_def
  by (auto split: option.splits sum.splits exc.splits)


lemma assemble_self_check:
  assumes "assemble c cfg dv pk sel = Inl e"
    and "cfg_project_root cfg = Some r" and "cfg_config_version cfg = 2"
    and "package_config_from_data c pk = Inr pkgs"
    and "selector_config_from_data c sel = Inr sels"
  shows "\<exists>m. e = DbtProjectError (validator_error_message c m) None None"
  using assms
  by (auto simp: assemble_def Let_def validate_def
      split: option.splits if_splits sum.splits exc.splits)

section \<open>The examples, evaluated\<close>

lemmas example_defs = example_collab_def example_from_dict_def field_str_def field_strs_def
  dict_get_def dict_get_default_def installed_example_def

lemma preprocess_minimal: "preprocess minimal_project = Inr (PDict minimal_project)"
  by (simp add: preprocess_def minimal_project_def converter_def handlers_cases)

lemma required_minimal:
  "get_required_version (example_collab s) i minimal_project False
     = Inr [spec_of GreaterThanOrEqual 0 0 0]"
  by (simp add: get_required_version_def parse_versions_def minimal_project_def
      example_collab_def dict_get_def)

definition minimal_canonical :: "(string \<times> pyval) list" where
  "minimal_canonical =
    [(''name'', PStr ''jaffle''), (''version'', PStr ''1.0''),
     (''project-root'', PStr ''/proj''), (''profile'', PNone),
     (''source-paths'', PList [PStr ''models'']),
     (''macro-paths'', PList [PStr ''macros'']),
     (''data-paths'', PList [PStr ''data'']),
     (''test-paths'', PList [PStr ''test'']), (''analysis-paths'', PList []),
     (''docs-paths'', PList [PStr ''models'', PStr ''data'', PStr ''snapshots'', PStr ''macros'']),
     (''asset-paths'', PList []), (''target-path'', PStr ''target''),
     (''snapshot-paths'', PList [PStr ''snapshots'']),
     (''clean-targets'', PList [PStr ''target'']),
     (''log-path'', PStr ''logs''), (''quoting'', PDict []),
     (''models'', PDict []), (''on-run-start'', PList []),
     (''on-run-end'', PList []), (''seeds'', PDict []),
     (''snapshots'', PDict []), (''sources'', PDict []), (''vars'', PDict []),
     (''require-dbt-version'', PList [PStr ''>=0.0.0'']),
     (''config-version'', PInt 2),
     (''query-comment'', PDict [(''comment'', PStr []), (''append'', PBool False)])]"

lemma to_project_config_minimal:
  "to_project_config minimal_resolved False = minimal_canonical"
  by (simp add: to_project_config_def minimal_resolved_def strs_def opt_str_def qc_truthy_def
      qc_to_dict_def to_dict_vars_def to_version_string_def spec_of_def matcher_text_def
      digit_of_def minimal_canonical_def)

lemma to_project_config_minimal_packages:
  "to_project_config minimal_resolved True = minimal_canonical @ [(''packages'', PList [])]"
  by (simp add: to_project_config_def minimal_resolved_def strs_def opt_str_def qc_truthy_def
      qc_to_dict_def to_dict_vars_def to_version_string_def spec_of_def matcher_text_def
      digit_of_def minimal_canonical_def dict_update_def)

definition minimal_cfg :: ProjectContract where
  "minimal_cfg =
     \<lparr>cfg_name = ''jaffle'', cfg_version = PStr ''1.0'', cfg_project_root = Some ''/proj'',
      cfg_profile = None, cfg_source_paths = None, cfg_macro_paths = None,
      cfg_data_paths = None, cfg_test_paths = None, cfg_analysis_paths = None,
      cfg_docs_paths = None, cfg_asset_paths = None, cfg_target_path = None,
      cfg_snapshot_paths = None, cfg_clean_targets = None, cfg_log_path = None,
      cfg_modules_path = None, cfg_quoting = None, cfg_on_run_start = None,
      cfg_on_run_end = None, cfg_models = PDict [], cfg_seeds = PDict [],
      cfg_snapshots = PDict [], cfg_sources = PDict [], cfg_vars = None,
      cfg_query_comment = QCNone, cfg_config_version = 2\<rparr>"

lemma contract_minimal:
  "contract_from_dict (example_collab s) (PDict minimal_project) = Inr minimal_cfg"
  by (simp add: example_defs minimal_project_def minimal_cfg_def)

lemma validate_minimal: "validate (example_collab False) minimal_resolved = Inr ()"
  unfolding validate_def to_project_config_minimal
  by (simp add: example_defs minimal_canonical_def)

lemma validate_minimal_strict:
  "validate (example_collab True) minimal_resolved =
     Inl (DbtProjectError [Lit ''None is not of type string''] None None)"
  unfolding validate_def to_project_config_minimal
  by (simp add: example_defs minimal_canonical_def)

lemma assemble_minimal:
  "assemble (example_collab s) minimal_cfg [spec_of GreaterThanOrEqual 0 0 0] PNone PNone =
     (case validate (example_collab s) minimal_resolved of
        Inl e \<Rightarrow> Inl e | Inr u \<Rightarrow> Inr minimal_resolved)"
  apply (simp add: assemble_def Let_def value_or_def all_source_paths_of_def
      query_comment_from_cfg_def package_config_from_data_def minimal_cfg_def)
  apply (simp add: example_collab_def[of s, THEN arg_cong[of _ _ package_from_dict]]
      example_collab_def[of s, THEN arg_cong[of _ _ selector_config_from_data]])
  apply (simp add: minimal_resolved_def[symmetric] spec_of_def[symmetric])
  done

lemma minimal_resolves:
  "from_project_config (example_collab False) installed_example minimal_project PNone PNone None
     = Inr minimal_resolved"
  unfolding from_project_config_def
  by (simp add: required_minimal preprocess_minimal contract_minimal assemble_minimal
      validate_minimal)

lemma minimal_fails_self_check:
  "from_project_config (example_collab True) installed_example minimal_project PNone PNone None
     = Inl (DbtProjectError [Lit ''None is not of type string''] None None)"
  unfolding from_project_config_def
  by (simp add: required_minimal preprocess_minimal contract_minimal assemble_minimal
      validate_minimal_strict)

section \<open>Defaults of the optional fields\<close>

text \<open>
  C3: in a project that \<open>from_project_config\<close> returns, every optional field that is
  absent (None) in the validated config has its literal default: source-paths
  \<^verbatim>\<open>['models']\<close>, macro-paths \<^verbatim>\<open>['macros']\<close>, data-paths \<^verbatim>\<open>['data']\<close>, test-paths \<^verbatim>\<open>['test']\<close>,
  analysis-paths \<^verbatim>\<open>[]\<close>, snapshot-paths \<^verbatim>\<open>['snapshots']\<close>, asset-paths \<^verbatim>\<open>[]\<close>, target-path
  \<^verbatim>\<open>'target'\<close>, log-path \<^verbatim>\<open>'logs'\<close>, on-run-start and on-run-end \<^verbatim>\<open>[]\<close>; clean-targets
  defaults to the list holding the resolved target-path, and docs-paths to the resolved
  source, data, snapshot, analysis and macro paths, concatenated in that order.
\<close>

theorem from_project_config_defaults:
  assumes "from_project_config c i d pk sel rv = Inr p"
    and "preprocess d = Inr d'"
    and "contract_from_dict c d' = Inr cfg"
  shows "(cfg_source_paths cfg = None \<longrightarrow> source_paths p = [''models''])
       \<and> (cfg_macro_paths cfg = None \<longrightarrow> macro_paths p = [''macros''])
       \<and> (cfg_data_paths cfg = None \<longrightarrow> data_paths p = [''data''])
       \<and> (cfg_test_paths cfg = None \<longrightarrow> test_paths p = [''test''])
       \<and> (cfg_analysis_paths cfg = None \<longrightarrow> analysis_paths p = [])
       \<and> (cfg_snapshot_paths cfg = None \<longrightarrow> snapshot_paths p = [''snapshots''])
       \<and> (cfg_asset_paths cfg = None \<longrightarrow> asset_paths p = [])
       \<and> (cfg_target_path cfg = None \<longrightarrow> target_path p = ''target'')
       \<and> (cfg_log_path cfg = None \<longrightarrow> log_path p = ''logs'')
       \<and> (cfg_on_run_start cfg = None \<longrightarrow> on_run_start p = [])
       \<and> (cfg_on_run_end cfg = None \<longrightarrow> on_run_end p = [])
       \<and> (cfg_clean_targets cfg = None \<longrightarrow> clean_targets p = [target_path p])
       \<and> (cfg_docs_paths cfg = None \<longrightarrow>
            docs_paths p =
              source_paths p @ data_paths p @ snapshot_paths p @ analysis_paths p
                @ macro_paths p)"
proof -
  from from_project_config_Inr [OF assms(1)] assms(2,3)
  obtain dv where a: "assemble c cfg dv pk sel = Inr p"
    by auto
  show ?thesis
    using assemble_fields [OF a] by (simp add: value_or_def)
qed

theorem from_project_config_defaults_witness:
  "from_project_config (example_collab False) installed_example minimal_project PNone PNone None
     = Inr minimal_resolved
   \<and> source_paths minimal_resolved = [''models'']
   \<and> analysis_paths minimal_resolved = []
   \<and> target_path minimal_resolved = ''target''
   \<and> clean_targets minimal_resolved = [target_path minimal_resolved]
   \<and> docs_paths minimal_resolved =
       source_paths minimal_resolved @ data_paths minimal_resolved
         @ snapshot_paths minimal_resolved @ analysis_paths minimal_resolved
         @ macro_paths minimal_resolved"
  using from_project_config_defaults
    [OF minimal_resolves preprocess_minimal contract_minimal [of False]]
    minimal_resolves
  by (simp add: minimal_cfg_def)

section \<open>The self-check of the assembled project\<close>

text \<open>
  C6, as stated, fails: with a validator that refuses a null profile, the project
  \<open>minimal_project\<close> passes schema validation and fails the self-check (its canonical form
  has \<^verbatim>\<open>profile: None\<close>), and the error is the very error that the manifest
  \<open>null_profile_project\<close> gets from schema validation.
\<close>

theorem self_check_error_counterexample:
  "\<not> isl (contract_from_dict (example_collab True) (PDict minimal_project))
   \<and> preprocess minimal_project = Inr (PDict minimal_project)
   \<and> from_project_config (example_collab True) installed_example minimal_project
        PNone PNone None
       = Inl (DbtProjectError [Lit ''None is not of type string''] None None)
   \<and> preprocess null_profile_project = Inr (PDict null_profile_project)
   \<and> contract_from_dict (example_collab True) (PDict null_profile_project)
       = Inl [Lit ''None is not of type string'']
   \<and> from_project_config (example_collab True) installed_example null_profile_project
        PNone PNone None
       = Inl (DbtProjectError [Lit ''None is not of type string''] None None)"
proof -
  have p: "preprocess null_profile_project = Inr (PDict null_profile_project)"
    by (simp add: preprocess_def null_profile_project_def minimal_project_def converter_def
        handlers_cases)
  have c: "contract_from_dict (example_collab True) (PDict null_profile_project)
       = Inl [Lit ''None is not of type string'']"
    by (simp add: example_defs null_profile_project_def minimal_project_def)
  have r: "get_required_version (example_collab True) installed_example null_profile_project
       False = Inr [spec_of GreaterThanOrEqual 0 0 0]"
    by (simp add: get_required_version_def parse_versions_def null_profile_project_def
        minimal_project_def example_collab_def dict_get_def)
  have f: "from_project_config (example_collab True) installed_example null_profile_project
        PNone PNone None
       = Inl (DbtProjectError [Lit ''None is not of type string''] None None)"
    unfolding from_project_config_def
    by (simp add: r p c) (simp add: example_collab_def)
  show ?thesis
    using p c f preprocess_minimal minimal_fails_self_check contract_minimal [of True]
    by simp
qed

text \<open>
  C6, amended: every project that \<open>from_project_config\<close> returns has passed the
  round-trip self-check (its canonical form validates). When the self-check fails, the
  error is the project error that carries the validator's message, and it is the error
  of the same kind and form that a schema-validation failure of the manifest raises.
\<close>

theorem from_project_config_self_check:
  "(from_project_config c i d pk sel rv = Inr p \<longrightarrow>
      (\<exists>cfg. contract_from_dict c (PDict (to_project_config p False)) = Inr cfg))
   \<and> (validate c q = Inl e \<longleftrightarrow>
        (\<exists>m. contract_from_dict c (PDict (to_project_config q False)) = Inl m
           \<and> e = DbtProjectError (validator_error_message c m) None None))
   \<and> (assemble c cfg dv pk sel = Inl e' \<and> cfg_project_root cfg = Some r
        \<and> cfg_config_version cfg = 2 \<and> package_config_from_data c pk = Inr pkgs
        \<and> selector_config_from_data c sel = Inr sels \<longrightarrow>
        (\<exists>m. e' = DbtProjectError (validator_error_message c m) None None))
   \<and> (preprocess d = Inr d' \<and> contract_from_dict c d' = Inl m' \<longrightarrow>
        from_project_config c i d pk sel (Some dv) =
          Inl (DbtProjectError (validator_error_message c m') None None))"
proof -
  have a: "from_project_config c i d pk sel rv = Inr p \<longrightarrow>
      (\<exists>cfg. contract_from_dict c (PDict (to_project_config p False)) = Inr cfg)"
  proof
    assume h: "from_project_config c i d pk sel rv = Inr p"
    from from_project_config_Inr [OF h] obtain dv0 cfg0 where
      "assemble c cfg0 dv0 pk sel = Inr p" by blast
    from assemble_fields(15) [OF this] show
      "\<exists>cfg. contract_from_dict c (PDict (to_project_config p False)) = Inr cfg"
      by (auto simp: validate_def split: sum.splits)
  qed
  have b: "validate c q = Inl e \<longleftrightarrow>
        (\<exists>m. contract_from_dict c (PDict (to_project_config q False)) = Inl m
           \<and> e = DbtProjectError (validator_error_message c m) None None)"
    by (auto simp: validate_def split: sum.splits)
  have s: "assemble c cfg dv pk sel = Inl e' \<and> cfg_project_root cfg = Some r
        \<and> cfg_config_version cfg = 2 \<and> package_config_from_data c pk = Inr pkgs
        \<and> selector_config_from_data c sel = Inr sels \<longrightarrow>
        (\<exists>m. e' = DbtProjectError (validator_error_message c m) None None)"
    using assemble_self_check by blast
  have v: "preprocess d = Inr d' \<and> contract_from_dict c d' = Inl m' \<longrightarrow>
        from_project_config c i d pk sel (Some dv) =
          Inl (DbtProjectError (validator_error_message c m') None None)"
    by (simp add: from_project_config_def)
  show ?thesis
    using a b s v by blast
qed

theorem from_project_config_self_check_witness:
  "(\<exists>cfg. contract_from_dict (example_collab False)
            (PDict (to_project_config minimal_resolved False)) = Inr cfg)
   \<and> validate (example_collab True) minimal_resolved =
       Inl (DbtProjectError [Lit ''None is not of type string''] None None)"
proof -
  have m: "contract_from_dict (example_collab True)
      (PDict (to_project_config minimal_resolved False)) = Inl [Lit ''None is not of type string'']"
    unfolding to_project_config_minimal
    by (simp add: example_defs minimal_canonical_def)
  have v: "validator_error_message (example_collab True) [Lit ''None is not of type string'']
      = [Lit ''None is not of type string'']"
    by (simp add: example_collab_def)
  have one: "\<exists>cfg. contract_from_dict (example_collab False)
            (PDict (to_project_config minimal_resolved False)) = Inr cfg"
    using from_project_config_self_check
      [of "example_collab False" installed_example minimal_project PNone PNone None
        minimal_resolved]
      minimal_resolves
    by blast
  have two: "validate (example_collab True) minimal_resolved =
       Inl (DbtProjectError [Lit ''None is not of type string''] None None)"
    using from_project_config_self_check
      [of "example_collab True" installed_example minimal_project PNone PNone None
        minimal_resolved minimal_resolved
        "DbtProjectError [Lit ''None is not of type string''] None None"]
      m v
    by auto
  show ?thesis using one two by blast
qed

section \<open>The canonical form\<close>

text \<open>
  C7 does not hold of the code: \<open>to_project_config\<close> writes no key for the modules
  directory, so two projects that differ only there have the same canonical form, with
  or without the packages.
\<close>

theorem to_project_config_drops_modules_path:
  "to_project_config (p\<lparr>modules_path := m\<rparr>) with_packages
     = to_project_config p with_packages
   \<and> map_of (to_project_config p False) ''modules-path'' = None
   \<and> to_project_config (minimal_resolved\<lparr>modules_path := ''vendor''\<rparr>) False
       = minimal_canonical"
proof -
  have a: "to_project_config (p\<lparr>modules_path := m\<rparr>) with_packages
     = to_project_config p with_packages"
    by (simp add: to_project_config_def Let_def)
  have b: "map_of (to_project_config p False) ''modules-path'' = None"
    by (simp add: to_project_config_def qc_truthy_def Let_def)
  have c: "to_project_config (minimal_resolved\<lparr>modules_path := ''vendor''\<rparr>) False
       = to_project_config minimal_resolved False"
    by (simp add: to_project_config_def Let_def)
  show ?thesis
    using a b c to_project_config_minimal
    by simp
qed

section \<open>Equality of projects\<close>

lemma same_class: "issubclass k c \<and> issubclass c k \<longleftrightarrow> k = c"
  by (cases k; cases c) (simp_all add: issubclass_def)

lemma py_eq_minimal:
  "py_eq (PDict (minimal_canonical @ [(''packages'', PList [])]))
         (PDict (minimal_canonical @ [(''packages'', PList [])]))"
  by (simp add: minimal_canonical_def)

text \<open>
  C8, as stated, fails: an instance of a class derived from Project is a Project and
  can have the same canonical form as a plain project, and the plain project is still
  not equal to it.
\<close>

theorem project_eq_subclass_counterexample:
  "isinstance (ProjectObj DerivedClass minimal_resolved) ProjectClass
   \<and> py_eq (PDict (to_project_config minimal_resolved True))
           (PDict (to_project_config minimal_resolved True))
   \<and> \<not> project_eq ProjectClass minimal_resolved (ProjectObj DerivedClass minimal_resolved)"
  using py_eq_minimal
  by (simp add: to_project_config_minimal_packages isinstance_def issubclass_def
      project_eq_def)

text \<open>
  C8, amended: a project \<open>p\<close> of class \<open>c\<close> equals \<open>other\<close> exactly when \<open>other\<close> is an
  object of the same class \<open>c\<close> (each is an instance of the other's class) and the
  canonical forms with packages of the two are equal as Python values. So two projects
  of one class that differ only in what the canonical form leaves out are equal.
\<close>

theorem project_eq_iff:
  "project_eq c p other \<longleftrightarrow>
     (\<exists>q. other = ProjectObj c q
        \<and> py_eq (PDict (to_project_config p True)) (PDict (to_project_config q True)))"
proof (cases other)
  case (ProjectObj k q)
  have "isinstance (ProjectObj k q) c \<and> isinstance (ProjectObj c p) k \<longleftrightarrow> k = c"
    using same_class [of k c] by (simp add: isinstance_def)
  then show ?thesis
    using ProjectObj by (auto simp: project_eq_def)
next
  case (OtherObj v)
  then show ?thesis by (simp add: project_eq_def)
qed

theorem project_eq_iff_witness:
  "project_eq ProjectClass minimal_resolved
     (ProjectObj ProjectClass (minimal_resolved\<lparr>modules_path := ''vendor''\<rparr>))
   \<and> \<not> project_eq ProjectClass minimal_resolved (OtherObj (PDict minimal_canonical))"
proof -
  have same: "to_project_config (minimal_resolved\<lparr>modules_path := ''vendor''\<rparr>) True
      = to_project_config minimal_resolved True"
    by (simp add: to_project_config_def Let_def)
  show ?thesis
    using project_eq_iff [of ProjectClass minimal_resolved
        "ProjectObj ProjectClass (minimal_resolved\<lparr>modules_path := ''vendor''\<rparr>)"]
      project_eq_iff [of ProjectClass minimal_resolved "OtherObj (PDict minimal_canonical)"]
      py_eq_minimal
    by (simp add: same to_project_config_minimal_packages)
qed

section \<open>Self-referential manifests\<close>

text \<open>
  C9: when the rendered project holds a reference to itself (and the required version
  was read), \<open>from_project_config\<close> raises the project error "Cycle detected", carrying
  the project, and not the raw recursion error; no schema-validation or parse error,
  which carry no project, is equal to it.
\<close>

theorem from_project_config_cycle:
  assumes "has_alias (PDict d)"
    and "(case rv of None \<Rightarrow> get_required_version c i d False | Some r \<Rightarrow> Inr r) = Inr dv"
  shows "from_project_config c i d pk sel rv = Inl (cycle_error d)
       \<and> cycle_error d =
           DbtProjectError [Lit ''Cycle detected: Project input has a reference to itself'']
             (Some (PDict d)) None
       \<and> cycle_error d \<noteq> RecursionException
       \<and> cycle_error d \<noteq> DbtProjectError m None pa
       \<and> cycle_error d \<noteq> ValidationError m"
proof -
  have "preprocess d = Inl RecursionException"
    unfolding preprocess_def by (rule deep_map_cycle [OF assms(1)])
  then have "from_project_config c i d pk sel rv = Inl (cycle_error d)"
    using assms(2) by (simp add: from_project_config_def)
  then show ?thesis
    by (simp add: cycle_error_def)
qed

theorem from_project_config_cycle_witness:
  "from_project_config (example_collab False) installed_example cyclic_project PNone PNone None
     = Inl (DbtProjectError [Lit ''Cycle detected: Project input has a reference to itself'']
             (Some (PDict cyclic_project)) None)"
proof -
  have a: "has_alias (PDict cyclic_project)"
    by (simp add: cyclic_project_def minimal_project_def)
  have r: "(case None of
              None \<Rightarrow> get_required_version (example_collab False) installed_example
                        cyclic_project False
            | Some r \<Rightarrow> Inr r) = Inr [spec_of GreaterThanOrEqual 0 0 0]"
    by (simp add: get_required_version_def parse_versions_def cyclic_project_def
        minimal_project_def example_collab_def dict_get_def)
  show ?thesis
    using from_project_config_cycle [OF a r, of PNone PNone] by simp
qed

section \<open>The config-version check of the assembly routine\<close>



end
